theory Spec2Isabelle
  imports Main
begin

section \<open>The build backend: api/server/backend/build/backend.go\<close>

text \<open>
  A shallow embedding of \<^verbatim>\<open>Backend.Build\<close>, \<^verbatim>\<open>Backend.pushImage\<close> and
  \<^verbatim>\<open>squashBuild\<close>. The collaborators behind interfaces (the build manager, the
  image component, the registry service) and the library functions are the fields
  of an environment record; each acts on a world \<open>'w\<close> that stands for everything
  they own. Every function returns, besides its Go results, the list of the calls
  it made, in the order it made them.
\<close>

subsection \<open>Errors\<close>

text \<open>
  A Go \<^verbatim>\<open>error\<close> value; \<^verbatim>\<open>nil\<close> is \<open>None\<close> of \<open>error option\<close>.
  \<open>Wrap err msg\<close> is \<^verbatim>\<open>errors.Wrap(err, msg)\<close> of github.com/pkg/errors for a
  non-nil \<^verbatim>\<open>err\<close>: a new error that keeps its cause.
\<close>

datatype error = Err string | Wrap error string

subsection \<open>Slices of strings\<close>

text \<open>
  A Go \<^verbatim>\<open>[]string\<close> is a header (backing array, offset into it, length, capacity)
  over a heap of backing arrays; the address of an array is its index in the heap.
  The nil slice has length and capacity 0.
\<close>

record slice =
  slice_ptr :: nat
  slice_off :: nat
  slice_len :: nat
  slice_cap :: nat

type_synonym heap = "string list list"

definition slice_view :: "heap \<Rightarrow> slice \<Rightarrow> string list" where
  "slice_view h sl = take (slice_len sl) (drop (slice_off sl) (h ! slice_ptr sl))"

definition wf_slice :: "heap \<Rightarrow> slice \<Rightarrow> bool" where
  "wf_slice h sl \<longleftrightarrow>
     slice_len sl \<le> slice_cap sl \<and>
     (slice_cap sl = 0 \<or>
      (slice_ptr sl < length h \<and> slice_off sl + slice_cap sl \<le> length (h ! slice_ptr sl)))"

text \<open>
  The builtin \<^verbatim>\<open>append(s, x)\<close> with one element: when the capacity allows, the
  element is written into the backing array right after the slice, in place;
  otherwise a new array is allocated, of the capacity \<open>grow\<close> proposes and at
  least the length needed, and the elements are copied.
\<close>

definition append_slice :: "(nat \<Rightarrow> nat) \<Rightarrow> slice \<Rightarrow> string \<Rightarrow> heap \<Rightarrow> slice \<times> heap" where
  "append_slice grow sl x h =
     (if slice_len sl < slice_cap sl
      then (sl\<lparr>slice_len := slice_len sl + 1\<rparr>,
            h[slice_ptr sl := (h ! slice_ptr sl)[slice_off sl + slice_len sl := x]])
      else (let newcap = max (slice_len sl + 1) (grow (slice_cap sl))
            in (\<lparr>slice_ptr = length h, slice_off = 0,
                 slice_len = slice_len sl + 1, slice_cap = newcap\<rparr>,
                h @ [slice_view h sl @ [x] @ replicate (newcap - (slice_len sl + 1)) []])))"

subsection \<open>Data\<close>

text \<open>
  \<^verbatim>\<open>types.ImageBuildOptions\<close> and \<^verbatim>\<open>backend.BuildConfig\<close>, with the fields that
  \<^verbatim>\<open>Build\<close> reads. \<open>'a\<close> is \<^verbatim>\<open>types.AuthConfig\<close>. \<^verbatim>\<open>Build\<close> assigns to no field
  of either; the collaborators are taken not to do so.
\<close>

record 'a image_build_options =
  Tags :: slice
  PushAs :: string
  Squash :: bool
  AuthConfigs :: "string \<rightharpoonup> 'a"

record 'a build_config =
  Options :: "'a image_build_options"

text \<open>
  \<^verbatim>\<open>builder.Result\<close>: the image identifier and the base image, \<^verbatim>\<open>nil\<close> when the
  build had none. A \<^verbatim>\<open>builder.Image\<close> is read through \<^verbatim>\<open>ImageID()\<close> only.
\<close>

datatype builder_image = Image (image_ImageID: string)

record result =
  ImageID :: string
  FromImage :: "builder_image option"

text \<open>
  Modelled from the spec: \<^verbatim>\<open>registry.RepositoryInfo\<close> and its index descriptor
  (package registry is not under src/). The spec has the index describe "which
  registry host/credentials apply to a given repository reference", the
  credentials being in "a map keyed by registry host".
\<close>

record index_info =
  index_host :: string

record repository_info =
  Index :: index_info

text \<open>
  Modelled from the spec: the \<^verbatim>\<open>Tagger\<close> of tag.go, which is not under src/:
  it holds the parsed references, in the order they were supplied.
\<close>

datatype 'r tagger = Tagger (repoAndTags: "'r list")

subsection \<open>Calls\<close>

datatype ('r, 'a) call =
    Call_NewTagger "string list"
  | Call_manager_Build "'a build_config"
  | Call_SquashImage string string
  | Call_Fprintf string
  | Call_TagImages string
  | Call_TagImageWithReference string 'r
  | Call_pushImage string
  | Call_ResolveRepository 'r
  | Call_PushImage string string "string \<rightharpoonup> string list" 'a

subsection \<open>Collaborators\<close>

text \<open>
  \<open>manager_Build\<close> is \<^verbatim>\<open>b.manager.Build\<close>; \<open>SquashImage\<close>, \<open>TagImageWithReference\<close>
  and \<open>PushImage\<close> are the \<^verbatim>\<open>ImageComponent\<close>; \<open>ResolveRepository\<close> is the registry
  service; \<open>ParseNormalizedNamed\<close> and \<open>ref_String\<close> are package reference, over
  the type \<open>'r\<close> of \<^verbatim>\<open>reference.Named\<close>; \<open>TruncateID\<close> is package stringid;
  \<open>zero_AuthConfig\<close> is the zero value \<^verbatim>\<open>types.AuthConfig{}\<close>; \<open>growslice\<close> is
  the capacity the Go runtime proposes when \<^verbatim>\<open>append\<close> has to allocate.
  A function that returns a pointer and an error returns a sum here: the pointer
  is not nil when the error is.
  \<open>tagger_stops\<close> chooses between the two behaviours the spec allows for
  \<^verbatim>\<open>TagImages\<close> after a failed tag.
\<close>

record ('w, 'r, 'a) env =
  manager_Build :: "'a build_config \<Rightarrow> 'w \<Rightarrow> (error + result) \<times> 'w"
  SquashImage :: "string \<Rightarrow> string \<Rightarrow> 'w \<Rightarrow> (string \<times> error option) \<times> 'w"
  TagImageWithReference :: "string \<Rightarrow> 'r \<Rightarrow> 'w \<Rightarrow> error option \<times> 'w"
  PushImage :: "string \<Rightarrow> string \<Rightarrow> (string \<rightharpoonup> string list) \<Rightarrow> 'a \<Rightarrow> 'w
                 \<Rightarrow> error option \<times> 'w"
  ResolveRepository :: "'r \<Rightarrow> 'w \<Rightarrow> (error + repository_info) \<times> 'w"
  ParseNormalizedNamed :: "string \<Rightarrow> error + 'r"
  ref_String :: "'r \<Rightarrow> string"
  TruncateID :: "string \<Rightarrow> string"
  zero_AuthConfig :: 'a
  growslice :: "nat \<Rightarrow> nat"
  tagger_stops :: bool

subsection \<open>The tagger and the auth lookup\<close>

text \<open>
  Modelled from the spec: \<^verbatim>\<open>NewTagger\<close> of tag.go, which is not under src/.
  "Constructor fails if any reference string fails to parse as a valid normalized
  repository reference"; the references are parsed in the order supplied and the
  error is the one of the first that fails.
\<close>

fun parse_all :: "(string \<Rightarrow> error + 'r) \<Rightarrow> string list \<Rightarrow> error + 'r list" where
  "parse_all p [] = Inr []"
| "parse_all p (n # ns) =
     (case p n of
        Inl e \<Rightarrow> Inl e
      | Inr r \<Rightarrow> (case parse_all p ns of Inl e \<Rightarrow> Inl e | Inr rs \<Rightarrow> Inr (r # rs)))"

definition NewTagger :: "('w, 'r, 'a) env \<Rightarrow> string list \<Rightarrow> error + 'r tagger" where
  "NewTagger env names =
     (case parse_all (ParseNormalizedNamed env) names of
        Inl e \<Rightarrow> Inl e
      | Inr rs \<Rightarrow> Inr (Tagger rs))"

text \<open>
  Modelled from the spec: \<^verbatim>\<open>Tagger.TagImages\<close> of tag.go, which is not under
  src/. It "applies every held reference to the given image identifier via the
  image component's tag operation, in the order the references were supplied, and
  returns the first error encountered"; after a failure it either stops or goes
  on with the remaining references, as \<open>tagger_stops\<close> says. Its progress reports
  are not modelled.
\<close>

fun tag_refs :: "('w, 'r, 'a) env \<Rightarrow> string \<Rightarrow> 'r list \<Rightarrow> 'w
                 \<Rightarrow> error option \<times> 'w \<times> ('r, 'a) call list" where
  "tag_refs env imageID [] w = (None, w, [])"
| "tag_refs env imageID (r # rs) w =
     (case TagImageWithReference env imageID r w of
        (None, w1) \<Rightarrow>
          (case tag_refs env imageID rs w1 of
             (err, w2, cs) \<Rightarrow> (err, w2, Call_TagImageWithReference imageID r # cs))
      | (Some e, w1) \<Rightarrow>
          (if tagger_stops env then (Some e, w1, [Call_TagImageWithReference imageID r])
           else (case tag_refs env imageID rs w1 of
                   (err, w2, cs) \<Rightarrow> (Some e, w2, Call_TagImageWithReference imageID r # cs))))"

definition TagImages :: "('w, 'r, 'a) env \<Rightarrow> 'r tagger \<Rightarrow> string \<Rightarrow> 'w
                         \<Rightarrow> error option \<times> 'w \<times> ('r, 'a) call list" where
  "TagImages env tg imageID w = tag_refs env imageID (repoAndTags tg) w"

text \<open>
  Modelled from the spec: \<^verbatim>\<open>registry.ResolveAuthConfig\<close> (package registry is
  not under src/): "a pure function resolving an auth config from a
  per-registry-index map plus a repo's index descriptor (never fails; returns a
  zero-value credential on miss)".
\<close>

definition ResolveAuthConfig :: "('w, 'r, 'a) env \<Rightarrow> (string \<rightharpoonup> 'a) \<Rightarrow> index_info \<Rightarrow> 'a" where
  "ResolveAuthConfig env authConfigs index =
     (case authConfigs (index_host index) of
        Some c \<Rightarrow> c
      | None \<Rightarrow> zero_AuthConfig env)"

subsection \<open>squashBuild, pushImage, Build\<close>

definition squashBuild :: "('w, 'r, 'a) env \<Rightarrow> result \<Rightarrow> 'w
                           \<Rightarrow> (string \<times> error option) \<times> 'w \<times> ('r, 'a) call list" where
  "squashBuild env build w =
     (let fromID = (case FromImage build of None \<Rightarrow> [] | Some img \<Rightarrow> image_ImageID img)
      in case SquashImage env (ImageID build) fromID w of
           ((imageID, Some err), w1) \<Rightarrow>
             (([], Some (Wrap err ''error squashing image'')), w1,
              [Call_SquashImage (ImageID build) fromID])
         | ((imageID, None), w1) \<Rightarrow>
             ((imageID, None), w1, [Call_SquashImage (ImageID build) fromID]))"

definition pushImage :: "('w, 'r, 'a) env \<Rightarrow> string \<Rightarrow> (string \<rightharpoonup> 'a) \<Rightarrow> 'w
                         \<Rightarrow> error option \<times> 'w \<times> ('r, 'a) call list" where
  "pushImage env pushAs authConfigs w =
     (case ParseNormalizedNamed env pushAs of
        Inl err \<Rightarrow> (Some err, w, [])
      | Inr ref \<Rightarrow>
          (case ResolveRepository env ref w of
             (Inl err, w1) \<Rightarrow> (Some err, w1, [Call_ResolveRepository ref])
           | (Inr repoInfo, w1) \<Rightarrow>
               (let authConfig = ResolveAuthConfig env authConfigs (Index repoInfo)
                in case PushImage env (ref_String env ref) [] Map.empty authConfig w1 of
                     (err, w2) \<Rightarrow>
                       (err, w2,
                        [Call_ResolveRepository ref,
                         Call_PushImage (ref_String env ref) [] Map.empty authConfig]))))"

text \<open>Lines 44 to 48 of \<^verbatim>\<open>Build\<close>: the tags handed to the tagger.\<close>

definition effective_tags :: "('w, 'r, 'a) env \<Rightarrow> 'a image_build_options \<Rightarrow> heap
                              \<Rightarrow> slice \<times> heap" where
  "effective_tags env options h =
     (if PushAs options \<noteq> []
      then append_slice (growslice env) (Tags options) (PushAs options) h
      else (Tags options, h))"

text \<open>
  \<^verbatim>\<open>Build\<close> returns the identifier, the error, the heap, the world and the calls
  made. The line written to stdout is the call \<open>Call_Fprintf\<close> with its text.
\<close>

definition Build :: "('w, 'r, 'a) env \<Rightarrow> 'a build_config \<Rightarrow> heap \<Rightarrow> 'w
                     \<Rightarrow> string \<times> error option \<times> heap \<times> 'w \<times> ('r, 'a) call list" where
  "Build env config h w =
     (let options = Options config
      in case effective_tags env options h of
           (tags, h1) \<Rightarrow>
      (case NewTagger env (slice_view h1 tags) of
           Inl err \<Rightarrow> ([], Some err, h1, w, [Call_NewTagger (slice_view h1 tags)])
         | Inr tg \<Rightarrow>
      (case manager_Build env config w of
           (Inl err, w1) \<Rightarrow>
             ([], Some err, h1, w1,
              [Call_NewTagger (slice_view h1 tags), Call_manager_Build config])
         | (Inr build, w1) \<Rightarrow>
      (case (if Squash options then squashBuild env build w1
             else ((ImageID build, None), w1, [])) of
           ((imageID, Some err), w2, cs2) \<Rightarrow>
             ([], Some err, h1, w2,
              [Call_NewTagger (slice_view h1 tags), Call_manager_Build config] @ cs2)
         | ((imageID, None), w2, cs2) \<Rightarrow>
      (case TagImages env tg imageID w2 of
           (err, w3, cs3) \<Rightarrow>
      (let cs = [Call_NewTagger (slice_view h1 tags), Call_manager_Build config] @ cs2 @
                [Call_Fprintf (''Successfully built '' @ TruncateID env imageID @ [CHR 0x0A]),
                 Call_TagImages imageID] @ cs3
       in if PushAs options \<noteq> []
          then (case pushImage env (PushAs options) (AuthConfigs options) w3 of
                  (err, w4, cs4) \<Rightarrow>
                    (imageID, err, h1, w4, cs @ Call_pushImage (PushAs options) # cs4))
          else (imageID, err, h1, w3, cs)))))))"

subsection \<open>Reading an outcome of Build\<close>

definition heap_of :: "string \<times> error option \<times> heap \<times> 'w \<times> ('r, 'a) call list \<Rightarrow> heap" where
  "heap_of out = fst (snd (snd out))"

definition calls_of :: "string \<times> error option \<times> heap \<times> 'w \<times> ('r, 'a) call list
                        \<Rightarrow> ('r, 'a) call list" where
  "calls_of out = snd (snd (snd (snd out)))"

text \<open>The lists handed to \<^verbatim>\<open>NewTagger\<close>, one for each call.\<close>

fun tagger_names :: "('r, 'a) call list \<Rightarrow> string list list" where
  "tagger_names [] = []"
| "tagger_names (Call_NewTagger ns # cs) = ns # tagger_names cs"
| "tagger_names (c # cs) = tagger_names cs"

text \<open>
  The image identifiers handed to the tag operations (\<^verbatim>\<open>TagImages\<close> and
  \<^verbatim>\<open>TagImageWithReference\<close>), and the first argument of each \<^verbatim>\<open>PushImage\<close>.
\<close>

fun tag_ids :: "('r, 'a) call list \<Rightarrow> string list" where
  "tag_ids [] = []"
| "tag_ids (Call_TagImages i # cs) = i # tag_ids cs"
| "tag_ids (Call_TagImageWithReference i r # cs) = i # tag_ids cs"
| "tag_ids (c # cs) = tag_ids cs"

fun push_images :: "('r, 'a) call list \<Rightarrow> string list" where
  "push_images [] = []"
| "push_images (Call_PushImage i t hs a # cs) = i # push_images cs"
| "push_images (c # cs) = push_images cs"

fun fprintf_texts :: "('r, 'a) call list \<Rightarrow> string list" where
  "fprintf_texts [] = []"
| "fprintf_texts (Call_Fprintf t # cs) = t # fprintf_texts cs"
| "fprintf_texts (c # cs) = fprintf_texts cs"

subsection \<open>A test double\<close>

text \<open>
  Collaborators that count the calls they receive in the world and fail where
  told to: the build engine yields image abc123 on base base1, squashing yields
  sq456. References are strings; a name with a space does not parse.
\<close>

definition double :: "error option \<Rightarrow> error option \<Rightarrow> error option \<Rightarrow> error option
                      \<Rightarrow> (nat, string, string) env" where
  "double engineErr squashErr tagErr pushErr =
     \<lparr>manager_Build = (\<lambda>config w.
         (case engineErr of
            Some e \<Rightarrow> Inl e
          | None \<Rightarrow> Inr \<lparr>ImageID = ''abc123'', FromImage = Some (Image ''base1'')\<rparr>, Suc w)),
      SquashImage = (\<lambda>from to w. ((if squashErr = None then ''sq456'' else [], squashErr), Suc w)),
      TagImageWithReference = (\<lambda>imageID r w. (tagErr, Suc w)),
      PushImage = (\<lambda>image tag metaHeaders authConfig w. (pushErr, Suc w)),
      ResolveRepository = (\<lambda>r w. (Inr \<lparr>Index = \<lparr>index_host = ''docker.io''\<rparr>\<rparr>, Suc w)),
      ParseNormalizedNamed = (\<lambda>s.
         if s = [] \<or> CHR '' '' \<in> set s then Inl (Err ''invalid reference format'')
         else Inr (''docker.io/library/'' @ s)),
      ref_String = (\<lambda>r. r),
      TruncateID = take 12,
      zero_AuthConfig = [],
      growslice = (\<lambda>c. 2 * c),
      tagger_stops = True\<rparr>"

definition config1 :: "bool \<Rightarrow> string \<Rightarrow> string build_config" where
  "config1 squash pushAs =
     \<lparr>Options = \<lparr>Tags = \<lparr>slice_ptr = 0, slice_off = 0, slice_len = 1, slice_cap = 2\<rparr>,
                  PushAs = pushAs, Squash = squash, AuthConfigs = Map.empty\<rparr>\<rparr>"

definition heap1 :: heap where
  "heap1 = [[''a:latest'', ''spare'']]"

section \<open>Properties\<close>

subsection \<open>Slices, the tagger, the calls of the helpers\<close>

lemma length_slice_view: "wf_slice h sl \<Longrightarrow> length (slice_view h sl) = slice_len sl"
  by (auto simp: wf_slice_def slice_view_def)

lemma slice_view_append:
  assumes "wf_slice h sl"
  shows "slice_view (snd (append_slice g sl x h)) (fst (append_slice g sl x h)) = slice_view h sl @ [x]"
proof (cases "slice_len sl < slice_cap sl")
  case True
  with assms have p: "slice_ptr sl < length h"
    and b: "slice_off sl + slice_len sl < length (h ! slice_ptr sl)"
    by (auto simp: wf_slice_def)
  from b have "slice_len sl < length (drop (slice_off sl) (h ! slice_ptr sl))" by simp
  then have "take (Suc (slice_len sl)) ((drop (slice_off sl) (h ! slice_ptr sl))[slice_len sl := x])
             = take (slice_len sl) (drop (slice_off sl) (h ! slice_ptr sl)) @ [x]"
    by (simp add: take_Suc_conv_app_nth)
  with True p show ?thesis
    by (simp add: append_slice_def slice_view_def drop_update_swap)
next
  case False
  have "take (Suc (slice_len sl)) (slice_view h sl @ x # ys) = slice_view h sl @ [x]" for ys
    using length_slice_view [OF assms] by simp
  with False show ?thesis
    by (simp add: append_slice_def Let_def)
       (simp add: slice_view_def [of "h @ _"])
qed

lemma slice_view_append_frame:
  assumes "wf_slice h sl"
  shows "slice_view (snd (append_slice g sl x h)) sl = slice_view h sl"
proof (cases "slice_len sl < slice_cap sl")
  case True
  with assms have p: "slice_ptr sl < length h" by (auto simp: wf_slice_def)
  with True show ?thesis
    by (simp add: append_slice_def slice_view_def drop_update_swap)
next
  case False
  show ?thesis
  proof (cases "slice_cap sl = 0")
    case True
    with assms have "slice_len sl = 0" by (simp add: wf_slice_def)
    then show ?thesis by (simp add: slice_view_def)
  next
    case nz: False
    with assms have "slice_ptr sl < length h" by (simp add: wf_slice_def)
    with False show ?thesis
      by (simp add: append_slice_def slice_view_def Let_def nth_append)
  qed
qed

lemma effective_tags_view:
  assumes "wf_slice h (Tags options)"
  shows "slice_view (snd (effective_tags env options h)) (fst (effective_tags env options h))
         = slice_view h (Tags options) @ (if PushAs options \<noteq> [] then [PushAs options] else [])"
  using assms by (simp add: effective_tags_def slice_view_append)

lemma effective_tags_frame:
  assumes "wf_slice h (Tags options)"
  shows "slice_view (snd (effective_tags env options h)) (Tags options) = slice_view h (Tags options)"
  using assms by (simp add: effective_tags_def slice_view_append_frame)

lemma Build_heap: "heap_of (Build env config h w) = snd (effective_tags env (Options config) h)"
  by (simp add: Build_def heap_of_def Let_def split: prod.splits sum.splits option.splits)

lemma parse_all_invalid:
  "n \<in> set ns \<Longrightarrow> p n = Inl e0 \<Longrightarrow> \<exists>e. parse_all p ns = Inl e"
  by (induction ns) (auto split: sum.splits)

lemma parse_all_valid:
  "\<forall>n \<in> set ns. \<exists>r. p n = Inr r \<Longrightarrow> \<exists>rs. parse_all p ns = Inr rs"
  by (induction ns) (auto split: sum.splits)

lemma NewTagger_invalid:
  "n \<in> set ns \<Longrightarrow> ParseNormalizedNamed env n = Inl e0 \<Longrightarrow> \<exists>e. NewTagger env ns = Inl e"
  using parse_all_invalid [of n ns "ParseNormalizedNamed env" e0]
  by (auto simp: NewTagger_def)

lemma NewTagger_valid:
  "\<forall>n \<in> set ns. \<exists>r. ParseNormalizedNamed env n = Inr r \<Longrightarrow> \<exists>tg. NewTagger env ns = Inr tg"
  using parse_all_valid [of ns "ParseNormalizedNamed env"]
  by (auto simp: NewTagger_def)

lemma tag_ids_append: "tag_ids (xs @ ys) = tag_ids xs @ tag_ids ys"
  by (induction xs rule: tag_ids.induct) simp_all


lemma fprintf_texts_append: "fprintf_texts (xs @ ys) = fprintf_texts xs @ fprintf_texts ys"
  by (induction xs rule: fprintf_texts.induct) simp_all

lemma tagger_names_append: "tagger_names (xs @ ys) = tagger_names xs @ tagger_names ys"
  by (induction xs rule: tagger_names.induct) simp_all

lemma tag_refs_calls:
  "tag_refs env imageID rs w = (err, w', cs) \<Longrightarrow>
     set (tag_ids cs) \<subseteq> {imageID} \<and> push_images cs = [] \<and> fprintf_texts cs = []
     \<and> tagger_names cs = []"
proof (induction rs arbitrary: w err w' cs)
  case Nil
  then show ?case by simp
next
  case (Cons r rs)
  then show ?case
    by (fastforce split: prod.splits option.splits if_splits)
qed

lemma TagImages_calls:
  "TagImages env tg imageID w = (err, w', cs) \<Longrightarrow>
     set (tag_ids cs) \<subseteq> {imageID} \<and> push_images cs = [] \<and> fprintf_texts cs = []
     \<and> tagger_names cs = []"
  unfolding TagImages_def by (rule tag_refs_calls)

lemma squashBuild_calls:
  "squashBuild env build w = (r, w', cs) \<Longrightarrow>
     cs = [Call_SquashImage (ImageID build)
             (case FromImage build of None \<Rightarrow> [] | Some img \<Rightarrow> image_ImageID img)]"
  by (auto simp: squashBuild_def Let_def split: prod.splits option.splits)

lemma pushImage_calls:
  "pushImage env pushAs authConfigs w = (err, w', cs) \<Longrightarrow>
     tag_ids cs = [] \<and> fprintf_texts cs = [] \<and> tagger_names cs = [] \<and>
     (\<forall>i \<in> set (push_images cs).
        \<exists>r. ParseNormalizedNamed env pushAs = Inr r \<and> i = ref_String env r)"
  by (auto simp: pushImage_def Let_def split: prod.splits sum.splits)

subsection \<open>Evaluating the test double\<close>

lemmas run_double = double_def config1_def heap1_def Build_def effective_tags_def
  append_slice_def slice_view_def NewTagger_def TagImages_def pushImage_def squashBuild_def
  ResolveAuthConfig_def Let_def calls_of_def heap_of_def wf_slice_def

subsection \<open>Push after tagging\<close>

text \<open>
  Claim C1. With a non-empty push-as reference, once the tagger is constructed and
  the build engine and the squash step (when enabled) have succeeded, \<^verbatim>\<open>Build\<close>
  calls \<^verbatim>\<open>pushImage\<close> whatever \<^verbatim>\<open>TagImages\<close> returned, and returns the working
  identifier with the outcome of \<^verbatim>\<open>pushImage\<close>: the error returned is nil when the
  push succeeds, whatever the error of tagging was.
\<close>

theorem Build_push_outcome_replaces_tag_error:
  assumes "PushAs (Options config) \<noteq> []"
    and "effective_tags env (Options config) h = (tags, h1)"
    and "NewTagger env (slice_view h1 tags) = Inr tg"
    and "manager_Build env config w = (Inr build, w1)"
    and "(if Squash (Options config) then squashBuild env build w1
          else ((ImageID build, None), w1, [])) = ((imageID, None), w2, cs2)"
    and "TagImages env tg imageID w2 = (tagErr, w3, cs3)"
    and "pushImage env (PushAs (Options config)) (AuthConfigs (Options config)) w3
         = (pushErr, w4, cs4)"
  shows "Build env config h w =
           (imageID, pushErr, h1, w4,
            [Call_NewTagger (slice_view h1 tags), Call_manager_Build config] @ cs2 @
            [Call_Fprintf (''Successfully built '' @ TruncateID env imageID @ [CHR 0x0A]),
             Call_TagImages imageID] @ cs3 @
            Call_pushImage (PushAs (Options config)) # cs4)
         \<and> (pushErr = None \<longrightarrow> fst (snd (Build env config h w)) = None)"
  using assms by (simp add: Build_def Let_def)

text \<open>
  Tagging fails with E, the push succeeds: the build of abc123 returns no error.
\<close>

theorem Build_push_outcome_replaces_tag_error_witness:
  "Build (double None None (Some (Err ''E'')) None) (config1 False ''a:latest'') heap1 0 =
     (''abc123'', None, [[''a:latest'', ''a:latest'']], 4,
      [Call_NewTagger [''a:latest'', ''a:latest''],
       Call_manager_Build (config1 False ''a:latest''),
       Call_Fprintf (''Successfully built abc123'' @ [CHR 0x0A]),
       Call_TagImages ''abc123'',
       Call_TagImageWithReference ''abc123'' ''docker.io/library/a:latest'',
       Call_pushImage ''a:latest'',
       Call_ResolveRepository ''docker.io/library/a:latest'',
       Call_PushImage ''docker.io/library/a:latest'' [] Map.empty []])
   \<and> TagImages (double None None (Some (Err ''E'')) None)
        (Tagger [''docker.io/library/a:latest'', ''docker.io/library/a:latest'']) ''abc123'' 1
      = (Some (Err ''E''), 2, [Call_TagImageWithReference ''abc123'' ''docker.io/library/a:latest''])"
  using Build_push_outcome_replaces_tag_error
    [of "config1 False ''a:latest''" "double None None (Some (Err ''E'')) None" heap1
        "\<lparr>slice_ptr = 0, slice_off = 0, slice_len = 2, slice_cap = 2\<rparr>"
        "[[''a:latest'', ''a:latest'']]"
        "Tagger [''docker.io/library/a:latest'', ''docker.io/library/a:latest'']"
        0 "\<lparr>ImageID = ''abc123'', FromImage = Some (Image ''base1'')\<rparr>" 1
        "''abc123''" 1 "[]" "Some (Err ''E'')" 2
        "[Call_TagImageWithReference ''abc123'' ''docker.io/library/a:latest'']"
        None 4
        "[Call_ResolveRepository ''docker.io/library/a:latest'',
          Call_PushImage ''docker.io/library/a:latest'' [] Map.empty []]"]
  by (simp add: double_def config1_def heap1_def effective_tags_def
      append_slice_def slice_view_def NewTagger_def TagImages_def pushImage_def
      ResolveAuthConfig_def Let_def)

text \<open>
  Claim C2 says that with a non-empty push-as reference the error returned is the
  tag error when the push succeeds and tagging had failed. Line 68 stores the tag
  error in \<^verbatim>\<open>err\<close> and line 71 overwrites it with the outcome of the push: here
  tagging fails with E, the push succeeds, and \<^verbatim>\<open>Build\<close> returns abc123 with a nil
  error.
\<close>

theorem Build_drops_tag_error_when_push_succeeds:
  "TagImages (double None None (Some (Err ''E'')) None)
     (Tagger [''docker.io/library/a:latest'', ''docker.io/library/a:latest'']) ''abc123'' 1
   = (Some (Err ''E''), 2, [Call_TagImageWithReference ''abc123'' ''docker.io/library/a:latest''])
   \<and> pushImage (double None None (Some (Err ''E'')) None) ''a:latest'' Map.empty 2
   = (None, 4, [Call_ResolveRepository ''docker.io/library/a:latest'',
                Call_PushImage ''docker.io/library/a:latest'' [] Map.empty []])
   \<and> fst (Build (double None None (Some (Err ''E'')) None) (config1 False ''a:latest'') heap1 0)
     = ''abc123''
   \<and> fst (snd (Build (double None None (Some (Err ''E'')) None) (config1 False ''a:latest'')
               heap1 0))
     = None"
  by (simp add: run_double)

subsection \<open>Squashing\<close>

text \<open>
  Claim C3. With \<^verbatim>\<open>Squash\<close> set, when the build engine and \<^verbatim>\<open>squashBuild\<close> succeed,
  the identifier that \<^verbatim>\<open>Build\<close> returns, the one named in the one line written to
  stdout, and the one handed to every tag operation are the identifier that
  \<^verbatim>\<open>squashBuild\<close> returned; when that differs from the identifier of the build
  engine, the latter is neither returned nor tagged.
\<close>

theorem Build_squashed_identifier:
  assumes sq: "Squash (Options config)"
    and eff: "effective_tags env (Options config) h = (tags, h1)"
    and tg: "NewTagger env (slice_view h1 tags) = Inr tg"
    and mb: "manager_Build env config w = (Inr build, w1)"
    and sb: "squashBuild env build w1 = ((squashed, None), w2, cs2)"
  shows "fst (Build env config h w) = squashed
         \<and> fprintf_texts (calls_of (Build env config h w))
           = [''Successfully built '' @ TruncateID env squashed @ [CHR 0x0A]]
         \<and> set (tag_ids (calls_of (Build env config h w))) = {squashed}
         \<and> (squashed \<noteq> ImageID build \<longrightarrow>
              fst (Build env config h w) \<noteq> ImageID build
              \<and> ImageID build \<notin> set (tag_ids (calls_of (Build env config h w))))"
proof -
  obtain tagErr w3 cs3 where ti: "TagImages env tg squashed w2 = (tagErr, w3, cs3)"
    by (cases "TagImages env tg squashed w2") auto
  obtain pushErr w4 cs4 where
    ps: "pushImage env (PushAs (Options config)) (AuthConfigs (Options config)) w3
         = (pushErr, w4, cs4)"
    by (cases "pushImage env (PushAs (Options config)) (AuthConfigs (Options config)) w3") auto
  note c2 = squashBuild_calls [OF sb]
  note c3 = TagImages_calls [OF ti]
  note c4 = pushImage_calls [OF ps]
  have id_eq: "fst (Build env config h w) = squashed"
    using sq eff tg mb sb ti ps by (simp add: Build_def Let_def)
  have text_eq: "fprintf_texts (calls_of (Build env config h w))
             = [''Successfully built '' @ TruncateID env squashed @ [CHR 0x0A]]"
    using sq eff tg mb sb ti ps c2 c3 c4
    by (simp add: Build_def Let_def calls_of_def fprintf_texts_append)
  have ids_eq: "set (tag_ids (calls_of (Build env config h w))) = {squashed}"
    using sq eff tg mb sb ti ps c2 c3 c4
    by (auto simp: Build_def Let_def calls_of_def tag_ids_append)
  from id_eq text_eq ids_eq show ?thesis by simp
qed

text \<open>Scenario 4 of the spec: abc123 on base1 is squashed into sq456.\<close>

theorem Build_squashed_identifier_witness:
  "fst (Build (double None None None None) (config1 True ''a:latest'') heap1 0) = ''sq456''
   \<and> fprintf_texts (calls_of (Build (double None None None None) (config1 True ''a:latest'')
                               heap1 0))
     = [''Successfully built sq456'' @ [CHR 0x0A]]
   \<and> set (tag_ids (calls_of (Build (double None None None None) (config1 True ''a:latest'')
                              heap1 0))) = {''sq456''}
   \<and> ''abc123'' \<notin> set (tag_ids (calls_of (Build (double None None None None)
                                            (config1 True ''a:latest'') heap1 0)))"
  using Build_squashed_identifier
    [of "config1 True ''a:latest''" "double None None None None" heap1
        "\<lparr>slice_ptr = 0, slice_off = 0, slice_len = 2, slice_cap = 2\<rparr>"
        "[[''a:latest'', ''a:latest'']]"
        "Tagger [''docker.io/library/a:latest'', ''docker.io/library/a:latest'']"
        0 "\<lparr>ImageID = ''abc123'', FromImage = Some (Image ''base1'')\<rparr>" 1
        "''sq456''" 2 "[Call_SquashImage ''abc123'' ''base1'']"]
  by (simp add: double_def config1_def heap1_def effective_tags_def
      append_slice_def slice_view_def NewTagger_def squashBuild_def Let_def)

text \<open>
  Claim C4. With \<^verbatim>\<open>Squash\<close> set, when \<^verbatim>\<open>SquashImage\<close> fails with a cause, \<^verbatim>\<open>Build\<close>
  returns the empty identifier and the cause wrapped with "error squashing image";
  the calls made are those to \<^verbatim>\<open>NewTagger\<close>, to the build engine and to
  \<^verbatim>\<open>SquashImage\<close>, so nothing is tagged or pushed. \<^verbatim>\<open>squashBuild\<close> always calls
  \<^verbatim>\<open>SquashImage\<close> once, with the identifier of the build and, as the base, the
  empty string when the result has no base image and the identifier of the base
  image otherwise.
\<close>

theorem Build_squash_failure:
  assumes "Squash (Options config)"
    and "effective_tags env (Options config) h = (tags, h1)"
    and "NewTagger env (slice_view h1 tags) = Inr tg"
    and "manager_Build env config w = (Inr build, w1)"
    and "SquashImage env (ImageID build)
           (case FromImage build of None \<Rightarrow> [] | Some img \<Rightarrow> image_ImageID img) w1
         = ((x, Some cause), w2)"
  shows "Build env config h w =
           ([], Some (Wrap cause ''error squashing image''), h1, w2,
            [Call_NewTagger (slice_view h1 tags), Call_manager_Build config,
             Call_SquashImage (ImageID build)
               (case FromImage build of None \<Rightarrow> [] | Some img \<Rightarrow> image_ImageID img)])
         \<and> snd (snd (squashBuild env b w0))
           = [Call_SquashImage (ImageID b)
                (case FromImage b of None \<Rightarrow> [] | Some img \<Rightarrow> image_ImageID img)]"
proof -
  have "snd (snd (squashBuild env b w0))
        = [Call_SquashImage (ImageID b)
             (case FromImage b of None \<Rightarrow> [] | Some img \<Rightarrow> image_ImageID img)]"
    by (cases "squashBuild env b w0") (auto dest: squashBuild_calls)
  moreover have "Build env config h w =
           ([], Some (Wrap cause ''error squashing image''), h1, w2,
            [Call_NewTagger (slice_view h1 tags), Call_manager_Build config,
             Call_SquashImage (ImageID build)
               (case FromImage build of None \<Rightarrow> [] | Some img \<Rightarrow> image_ImageID img)])"
    using assms by (simp add: Build_def squashBuild_def Let_def)
  ultimately show ?thesis by simp
qed

text \<open>Scenario 6 of the spec, and a squash of a build that has no base image.\<close>

theorem Build_squash_failure_witness:
  "Build (double None (Some (Err ''C'')) None None) (config1 True ''a:latest'') heap1 0 =
     ([], Some (Wrap (Err ''C'') ''error squashing image''), [[''a:latest'', ''a:latest'']], 2,
      [Call_NewTagger [''a:latest'', ''a:latest''],
       Call_manager_Build (config1 True ''a:latest''),
       Call_SquashImage ''abc123'' ''base1''])
   \<and> snd (snd (squashBuild (double None None None None)
                  \<lparr>ImageID = ''abc123'', FromImage = None\<rparr> 0))
     = [Call_SquashImage ''abc123'' []]"
  using Build_squash_failure
    [of "config1 True ''a:latest''" "double None (Some (Err ''C'')) None None" heap1
        "\<lparr>slice_ptr = 0, slice_off = 0, slice_len = 2, slice_cap = 2\<rparr>"
        "[[''a:latest'', ''a:latest'']]"
        "Tagger [''docker.io/library/a:latest'', ''docker.io/library/a:latest'']"
        0 "\<lparr>ImageID = ''abc123'', FromImage = Some (Image ''base1'')\<rparr>" 1
        "[]" "Err ''C''" 2 "\<lparr>ImageID = ''abc123'', FromImage = None\<rparr>" 0]
  by (simp add: double_def config1_def heap1_def effective_tags_def
      append_slice_def slice_view_def NewTagger_def squashBuild_def Let_def)

subsection \<open>Failure of the build engine\<close>

text \<open>
  Claim C5. When every reference handed to the tagger parses and the build engine
  returns an error, \<^verbatim>\<open>Build\<close> returns the empty identifier and that error; the
  calls made are those to \<^verbatim>\<open>NewTagger\<close> and to the build engine, so there is no
  squash, no tagging, no line on stdout and no push.
\<close>

theorem Build_engine_failure:
  assumes eff: "effective_tags env (Options config) h = (tags, h1)"
    and valid: "\<forall>n \<in> set (slice_view h1 tags). \<exists>r. ParseNormalizedNamed env n = Inr r"
    and mb: "manager_Build env config w = (Inl engineErr, w1)"
  shows "Build env config h w =
           ([], Some engineErr, h1, w1,
            [Call_NewTagger (slice_view h1 tags), Call_manager_Build config])"
proof -
  from NewTagger_valid [OF valid] obtain tg where "NewTagger env (slice_view h1 tags) = Inr tg" ..
  with eff mb show ?thesis by (simp add: Build_def Let_def)
qed

text \<open>Scenario 5 of the spec.\<close>

theorem Build_engine_failure_witness:
  "Build (double (Some (Err ''B'')) None None None) (config1 True ''a:latest'') heap1 0 =
     ([], Some (Err ''B''), [[''a:latest'', ''a:latest'']], 1,
      [Call_NewTagger [''a:latest'', ''a:latest''],
       Call_manager_Build (config1 True ''a:latest'')])"
  using Build_engine_failure
    [of "double (Some (Err ''B'')) None None None" "config1 True ''a:latest''" heap1
        "\<lparr>slice_ptr = 0, slice_off = 0, slice_len = 2, slice_cap = 2\<rparr>"
        "[[''a:latest'', ''a:latest'']]" 0 "Err ''B''" 1]
  by (simp add: double_def config1_def heap1_def effective_tags_def
      append_slice_def slice_view_def Let_def)

subsection \<open>The identifier that is tagged, the reference that is pushed\<close>




subsection \<open>The references handed to the tagger\<close>

text \<open>
  Claim C7. \<^verbatim>\<open>Build\<close> calls \<^verbatim>\<open>NewTagger\<close> once, with the configured tags in their
  order, followed by the push-as reference exactly when it is not empty; nothing
  is removed, so a non-empty push-as reference is among the references handed to
  the tagger.
\<close>

theorem Build_tagger_names:
  assumes wf: "wf_slice h (Tags (Options config))"
  shows "tagger_names (calls_of (Build env config h w))
           = [slice_view h (Tags (Options config)) @
              (if PushAs (Options config) \<noteq> [] then [PushAs (Options config)] else [])]
         \<and> (PushAs (Options config) \<noteq> [] \<longrightarrow>
              PushAs (Options config) \<in> set (hd (tagger_names (calls_of (Build env config h w)))))"
proof -
  obtain tags h1 where eff: "effective_tags env (Options config) h = (tags, h1)"
    by (cases "effective_tags env (Options config) h") auto
  have names: "slice_view h1 tags = slice_view h (Tags (Options config)) @
                 (if PushAs (Options config) \<noteq> [] then [PushAs (Options config)] else [])"
    using effective_tags_view [OF wf, of env] eff by simp
  have "tagger_names (calls_of (Build env config h w)) = [slice_view h1 tags]"
    using eff
    by (auto simp: Build_def Let_def calls_of_def tagger_names_append
             split: prod.splits sum.splits option.splits if_splits
             dest!: TagImages_calls pushImage_calls squashBuild_calls)
  with names show ?thesis by simp
qed

text \<open>The push-as reference is already a configured tag: it is handed over twice.\<close>

theorem Build_tagger_names_witness:
  "wf_slice heap1 (Tags (Options (config1 False ''a:latest'')))
   \<and> tagger_names (calls_of (Build (double None None None None) (config1 False ''a:latest'')
                               heap1 0))
     = [[''a:latest'', ''a:latest'']]"
  using Build_tagger_names
    [of heap1 "config1 False ''a:latest''" "double None None None None" 0]
  by (simp add: config1_def heap1_def wf_slice_def slice_view_def)

text \<open>
  Claim C8. When one of the references handed to the tagger does not parse,
  \<^verbatim>\<open>NewTagger\<close> returns an error and \<^verbatim>\<open>Build\<close> returns the empty identifier with
  that error; the only call made is the one to \<^verbatim>\<open>NewTagger\<close>, and the world is
  the one \<^verbatim>\<open>Build\<close> started in: the build engine has not been invoked.
\<close>

theorem Build_invalid_reference:
  assumes eff: "effective_tags env (Options config) h = (tags, h1)"
    and mem: "n \<in> set (slice_view h1 tags)"
    and bad: "ParseNormalizedNamed env n = Inl e0"
  shows "\<exists>e. NewTagger env (slice_view h1 tags) = Inl e
             \<and> Build env config h w = ([], Some e, h1, w, [Call_NewTagger (slice_view h1 tags)])"
proof -
  from NewTagger_invalid [OF mem bad] obtain e where
    "NewTagger env (slice_view h1 tags) = Inl e" ..
  with eff show ?thesis by (simp add: Build_def Let_def)
qed

text \<open>A push-as reference with a space in it.\<close>

theorem Build_invalid_reference_witness:
  "Build (double None None None None) (config1 False ''a b'') heap1 0 =
     ([], Some (Err ''invalid reference format''), [[''a:latest'', ''a b'']], 0,
      [Call_NewTagger [''a:latest'', ''a b'']])"
  using Build_invalid_reference
    [of "double None None None None" "config1 False ''a b''" heap1
        "\<lparr>slice_ptr = 0, slice_off = 0, slice_len = 2, slice_cap = 2\<rparr>"
        "[[''a:latest'', ''a b'']]" "''a b''" "Err ''invalid reference format''" 0]
  by (simp add: double_def config1_def heap1_def effective_tags_def
      append_slice_def slice_view_def NewTagger_def Let_def)

subsection \<open>The push helper\<close>

text \<open>
  Claim C9. When the push-as reference parses and the repository resolves,
  \<^verbatim>\<open>pushImage\<close> calls \<^verbatim>\<open>PushImage\<close> with the string of the reference, an empty tag,
  an empty map of headers and the credential that \<^verbatim>\<open>ResolveAuthConfig\<close> selects,
  and returns the error of \<^verbatim>\<open>PushImage\<close> as it is. The selection is a total
  function: when the map has no entry for the registry, it is the zero credential.
\<close>

theorem pushImage_delegates:
  assumes "ParseNormalizedNamed env pushAs = Inr ref"
    and "ResolveRepository env ref w = (Inr repoInfo, w1)"
  shows "pushImage env pushAs authConfigs w =
           (fst (PushImage env (ref_String env ref) [] Map.empty
                   (ResolveAuthConfig env authConfigs (Index repoInfo)) w1),
            snd (PushImage env (ref_String env ref) [] Map.empty
                   (ResolveAuthConfig env authConfigs (Index repoInfo)) w1),
            [Call_ResolveRepository ref,
             Call_PushImage (ref_String env ref) [] Map.empty
               (ResolveAuthConfig env authConfigs (Index repoInfo))])
         \<and> (authConfigs (index_host (Index repoInfo)) = None \<longrightarrow>
              ResolveAuthConfig env authConfigs (Index repoInfo) = zero_AuthConfig env)"
  using assms
  by (simp add: pushImage_def ResolveAuthConfig_def Let_def split: prod.splits)

text \<open>No credentials at all, and a push that fails with P.\<close>

theorem pushImage_delegates_witness:
  "pushImage (double None None None (Some (Err ''P''))) ''a:latest'' Map.empty 0 =
     (Some (Err ''P''), 2,
      [Call_ResolveRepository ''docker.io/library/a:latest'',
       Call_PushImage ''docker.io/library/a:latest'' [] Map.empty []])
   \<and> ResolveAuthConfig (double None None None (Some (Err ''P''))) Map.empty
        \<lparr>index_host = ''docker.io''\<rparr> = []"
  using pushImage_delegates
    [of "double None None None (Some (Err ''P''))" "''a:latest''"
        "''docker.io/library/a:latest''" 0 "\<lparr>Index = \<lparr>index_host = ''docker.io''\<rparr>\<rparr>" 1
        Map.empty]
  by (simp add: double_def)

subsection \<open>The configuration after Build\<close>

text \<open>
  Claim C10. \<^verbatim>\<open>Build\<close> assigns to no field of the configuration, which is a value
  here; the one write it makes to the heap is the one of \<^verbatim>\<open>append\<close>, which lands
  after the last element of \<^verbatim>\<open>options.Tags\<close> or in a new array. So the tag list
  that the caller configured reads the same in the heap that \<^verbatim>\<open>Build\<close> leaves as
  in the heap it started in, also when a push-as reference has been appended.
\<close>

theorem Build_leaves_Tags:
  assumes "wf_slice h (Tags (Options config))"
  shows "slice_view (heap_of (Build env config h w)) (Tags (Options config))
         = slice_view h (Tags (Options config))"
  using assms by (simp add: Build_heap effective_tags_frame)

text \<open>
  The backing array has room for one more element: \<^verbatim>\<open>append\<close> writes the push-as
  reference into it, and the configured tags still are the one tag.
\<close>

theorem Build_leaves_Tags_witness:
  "wf_slice heap1 (Tags (Options (config1 False ''a:latest'')))
   \<and> slice_view (heap_of (Build (double None None None None) (config1 False ''a:latest'')
                             heap1 0)) (Tags (Options (config1 False ''a:latest'')))
     = [''a:latest'']
   \<and> slice_view heap1 (Tags (Options (config1 False ''a:latest''))) = [''a:latest'']"
  using Build_leaves_Tags
    [of heap1 "config1 False ''a:latest''" "double None None None None" 0]
  by (simp add: config1_def heap1_def wf_slice_def slice_view_def)

end
